theory Spec2Isabelle
  imports Main "HOL-Library.Sublist"
begin

section \<open>Strings as the two voice components use them\<close>

text \<open>
  The repository has two voice surfaces: \<open>VoiceInterface\<close> (src/unnamed/part_003) and
  \<open>RealTimeVoiceChat\<close> (second half of src/frontend/src/components/AgentStatusIndicator.tsx).
  Both are React function components driving the browser's speech recognition and speech
  synthesis objects. Strings are modelled as lists of 8-bit characters, so the white space
  class \<open>\s\<close> of JavaScript is cut down to its members below code 256, and the line
  terminators that \<open>.\<close> refuses to match are line feed and carriage return.
\<close>

definition is_space :: "char \<Rightarrow> bool" where
  "is_space c \<longleftrightarrow>
     c \<in> set [CHR 0x09, CHR 0x0A, CHR 0x0B, CHR 0x0C, CHR 0x0D, CHR '' '', CHR 0xA0]"

definition is_line_terminator :: "char \<Rightarrow> bool" where
  "is_line_terminator c \<longleftrightarrow> c = CHR 0x0A \<or> c = CHR 0x0D"

text \<open>\<open>String.prototype.trim\<close>: white space is removed at both ends.\<close>

definition trim :: "string \<Rightarrow> string" where
  "trim s = rev (dropWhile is_space (rev (dropWhile is_space s)))"

text \<open>Decimal rendering of a number inside a template literal (\<open>`HTTP ${response.status}`\<close>).\<close>

fun digits :: "nat \<Rightarrow> string" where
  "digits n = (if n < 10 then [char_of (48 + n)] else digits (n div 10) @ [char_of (48 + n mod 10)])"

declare digits.simps [simp del]

subsection \<open>The replacements of \<open>speakText\<close> in VoiceInterface\<close>

text \<open>
  \<open>find_close d xs\<close> is the lazy group \<open>(.*?)\<close> followed by the closing delimiter \<open>d\<close>:
  the shortest run of characters other than line terminators after which \<open>d\<close> stands.
  It returns the group and the text after the closing delimiter.
\<close>

fun find_close :: "string \<Rightarrow> string \<Rightarrow> (string \<times> string) option" where
  "find_close d [] = (if d = [] then Some ([], []) else None)"
| "find_close d (c # cs) =
     (if prefix d (c # cs) then Some ([], drop (length d) (c # cs))
      else if is_line_terminator c then None
      else (case find_close d cs of
              None \<Rightarrow> None
            | Some (inner, rest) \<Rightarrow> Some (c # inner, rest)))"

lemma find_close_length:
  "find_close d xs = Some (inner, rest) \<Longrightarrow> length rest \<le> length xs"
proof (induction xs arbitrary: inner rest)
  case Nil
  then show ?case by (simp split: if_splits)
next
  case (Cons c cs)
  then show ?case
    by (fastforce split: if_splits option.splits)
qed

text \<open>
  \<open>text.replace(/D(.*?)D/g, '$1')\<close> for a delimiter \<open>D = d0 # ds\<close>: scanning from the left,
  an opening delimiter that finds its closing one on the same line is replaced, with the
  closing one, by the group between them, and the scan goes on after the closing
  delimiter; any other character is kept.
\<close>

function replace_pair :: "char \<Rightarrow> string \<Rightarrow> string \<Rightarrow> string" where
  "replace_pair d0 ds [] = []"
| "replace_pair d0 ds (c # cs) =
     (if prefix (d0 # ds) (c # cs) then
        (case find_close (d0 # ds) (drop (length ds) cs) of
           Some (inner, rest) \<Rightarrow> inner @ replace_pair d0 ds rest
         | None \<Rightarrow> c # replace_pair d0 ds cs)
      else c # replace_pair d0 ds cs)"
  by pat_completeness auto
termination
proof (relation "measure (\<lambda>(d0, ds, xs). length xs)")
  show "wf (measure (\<lambda>(d0, ds, xs). length xs))" by simp
next
  fix d0 :: char and ds c cs x2 x y
  assume "find_close (d0 # ds) (drop (length ds) cs) = Some x2" "(x, y) = x2"
  then have "length y \<le> length (drop (length ds) cs)"
    using find_close_length [of "d0 # ds" "drop (length ds) cs" x y] by simp
  then show "((d0, ds, y), (d0, ds, c # cs)) \<in> measure (\<lambda>(d0, ds, xs). length xs)"
    by simp
qed simp_all

text \<open>\<open>text.replace(/#{1,6}\s/g, '')\<close>: one to six hashes and the white space after them go.\<close>

function strip_headers :: "string \<Rightarrow> string" where
  "strip_headers [] = []"
| "strip_headers (c # cs) =
     (let k = length (takeWhile (\<lambda>x. x = CHR ''#'') (c # cs)) in
      if c = CHR ''#'' \<and> k \<le> 6 \<and> (case drop k (c # cs) of [] \<Rightarrow> False | w # _ \<Rightarrow> is_space w)
      then strip_headers (drop (Suc k) (c # cs))
      else c # strip_headers cs)"
  by pat_completeness auto
termination
  by (relation "measure length") auto

text \<open>\<open>text.replace(/\n+/g, '. ')\<close> and \<open>text.replace(/\s+/g, ' ')\<close>.\<close>

function newlines_to_periods :: "string \<Rightarrow> string" where
  "newlines_to_periods [] = []"
| "newlines_to_periods (c # cs) =
     (if c = CHR 0x0A then ''. '' @ newlines_to_periods (dropWhile (\<lambda>x. x = CHR 0x0A) cs)
      else c # newlines_to_periods cs)"
  by pat_completeness auto
termination
  by (relation "measure length") (auto simp: length_dropWhile_le less_Suc_eq_le)

function normalize_whitespace :: "string \<Rightarrow> string" where
  "normalize_whitespace [] = []"
| "normalize_whitespace (c # cs) =
     (if is_space c then CHR '' '' # normalize_whitespace (dropWhile is_space cs)
      else c # normalize_whitespace cs)"
  by pat_completeness auto
termination
  by (relation "measure length") (auto simp: length_dropWhile_le less_Suc_eq_le)

definition cleanText :: "string \<Rightarrow> string" where
  "cleanText t =
     trim (normalize_whitespace (newlines_to_periods (strip_headers
       (replace_pair (CHR ''`'') []
         (replace_pair (CHR ''*'') []
           (replace_pair (CHR ''*'') ''*'' t))))))"


section \<open>Data model\<close>

text \<open>
  A value as the code meets it at run time where its types promise a string: a string,
  or any other value (\<open>undefined\<close>, \<open>null\<close>, a boolean, a number, an object, an array).
  Of a value that is not a string only its truthiness is kept; the code does nothing
  else with it than test it, store it and call \<open>trim\<close> on it.
\<close>

datatype js_value = Text string | Other bool

definition truthy :: "js_value \<Rightarrow> bool" where
  "truthy v = (case v of Text t \<Rightarrow> t \<noteq> [] | Other b \<Rightarrow> b)"

text \<open>
  Conversation entries. RealTimeVoiceChat keeps \<open>{type: 'user' | 'ai', text, timestamp}\<close>;
  VoiceInterface's \<open>ConversationEntry\<close> has the same three fields (with
  \<open>'user' | 'assistant'\<close>) and adds \<open>id\<close> and the optional \<open>isProcessing\<close>. The text of an
  assistant entry is whatever the response body held. Times are milliseconds as
  \<open>Date.now()\<close> gives them; the clock readings taken within one call are taken to be
  equal.
\<close>

datatype entry_type = user | assistant | ai

record message =
  type :: entry_type
  "text" :: js_value
  timestamp :: nat

record ConversationEntry = message +
  id_entry :: string
  isProcessing_entry :: "bool option"

text \<open>The body of the request to \<open>/api/agents/coordinate\<close>; a field a component does not
  send is \<open>None\<close>.\<close>

record turn =
  role :: string
  content :: js_value

record request_context =
  session_id :: string
  input_method :: string
  conversation_context :: "turn list option"
  real_time :: "bool option"

record request_body =
  task :: string
  "context" :: request_context
  agents :: "string list"

text \<open>
  What the awaited \<open>fetch\<close> can bring. A rejection carries the message of the thrown
  value when that is an \<open>Error\<close> (\<open>None\<close> otherwise). A response carries \<open>ok\<close>, \<open>status\<close>,
  \<open>statusText\<close> and what \<open>response.json()\<close> gives: a rejection, the value \<open>null\<close>, or any
  other JSON value. Of a value other than \<open>null\<close> the code reads two expressions,
  \<open>result.results?.summary\<close> and \<open>result.summary\<close>; an expression that finds nothing
  (no such property, or \<open>results\<close> missing or \<open>null\<close>) is \<open>undefined\<close>, that is
  \<open>Other False\<close>.
\<close>

record api_result =
  results_summary :: js_value
  summary :: js_value

datatype json_outcome = JsonRejected "string option" | JsonNull | JsonBody api_result

record response =
  ok :: bool
  status :: nat
  statusText :: string
  json :: json_outcome

text \<open>
  The messages of the two \<open>TypeError\<close>s the code can run into, which the engine words:
  reading \<open>result.results\<close> when \<open>result\<close> is \<open>null\<close>, and calling \<open>text.trim()\<close> when
  \<open>text\<close> is not a string.
\<close>

record type_errors =
  reading_null :: string
  calling_trim :: string

datatype fetch_outcome = Rejected "string option" | Resolved response

text \<open>One result of a recognition event: \<open>event.results[i][0].transcript\<close> and
  \<open>event.results[i].isFinal\<close>.\<close>

record speech_result =
  alt_transcript :: string
  isFinal :: bool

text \<open>
  Calls made on the platform objects, in the order they are made: the microphone
  permission request, \<open>recognition.start()\<close> and \<open>stop()\<close>, \<open>speechSynthesis.cancel()\<close>
  and \<open>speak(utterance)\<close> (with the utterance's text; voice, rate, pitch and volume are
  left out), \<open>fetch\<close> with its body, and \<open>setTimeout\<close> with its delay. The effect of
  RealTimeVoiceChat that draws the audio visualisation, with a microphone request and
  an audio context of its own, takes no part in the dialogue and is left out.
\<close>

datatype effect =
    GetUserMedia
  | RecognitionStart
  | RecognitionStop
  | SynthCancel
  | SynthSpeak string
  | Fetch request_body
  | SetTimeout nat

text \<open>
  The state both components keep: the \<open>useState\<close> variables they share, whether the two
  refs hold an object, and the log of platform calls.
\<close>

record 'e voice =
  isListening :: bool
  isProcessing :: bool
  isSpeaking :: bool
  conversation :: "'e list"
  error :: string
  recognitionRef :: bool
  synthRef :: bool
  effects :: "effect list"

record VoiceInterface = "ConversationEntry voice" +
  currentTranscript :: string
  selectedVoice :: "string option"
  permissionGranted :: bool

record RealTimeVoiceChat = "message voice" +
  transcript :: string
  aiResponse :: js_value

text \<open>
  A handler is a closure made during one render: where its body reads a state variable
  it reads the value of that render, while a setter, a functional update
  (\<open>setConversation(prev => ...)\<close>) and a ref act on the live state. Every handler below
  that reads a state variable therefore takes two states: \<open>c\<close>, the render its closure
  was made in, and \<open>s\<close>, the live state it updates. A handler bound in the JSX (the
  buttons) is made anew at every render, so it runs with \<open>c = s\<close>. The recognition
  callbacks are installed once, after the first render (\<open>useCallback\<close> and \<open>useEffect\<close>
  with an empty dependency list), and nothing else calls \<open>processUserInput\<close> or
  \<open>processVoiceInput\<close>: these two, what they call and the callbacks they create run as
  closures of the first render, in which every state variable has its initial value.
\<close>

section \<open>Operations shared by both components\<close>

definition stopListening :: "('e, 'm) voice_scheme \<Rightarrow> ('e, 'm) voice_scheme \<Rightarrow> ('e, 'm) voice_scheme" where
  "stopListening c s =
     (if recognitionRef s \<and> isListening c then s\<lparr>effects := effects s @ [RecognitionStop]\<rparr> else s)"

definition stopSpeaking :: "('e, 'm) voice_scheme \<Rightarrow> ('e, 'm) voice_scheme" where
  "stopSpeaking s =
     (if synthRef s then s\<lparr>effects := effects s @ [SynthCancel], isSpeaking := False\<rparr> else s)"

definition recognition_onend :: "('e, 'm) voice_scheme \<Rightarrow> ('e, 'm) voice_scheme" where
  "recognition_onend s = s\<lparr>isListening := False\<rparr>"

text \<open>\<open>a || b\<close>, and \<open>result.results?.summary || result.summary || fallback\<close>.\<close>

definition or_else :: "js_value \<Rightarrow> js_value \<Rightarrow> js_value" where
  "or_else a b = (if truthy a then a else b)"

definition answer_text :: "api_result \<Rightarrow> string \<Rightarrow> js_value" where
  "answer_text result fallback =
     or_else (results_summary result) (or_else (summary result) (Text fallback))"

text \<open>\<open>error instanceof Error ? error.message : 'Unknown error'\<close>, after the fixed prefix.\<close>

definition error_message :: "string option \<Rightarrow> string" where
  "error_message thrown =
     ''Sorry, I encountered an error: '' @ (case thrown of Some m \<Rightarrow> m | None \<Rightarrow> ''Unknown error'')"


text \<open>The transcripts of the results from \<open>event.resultIndex\<close> on, final ones and interim
  ones, each concatenated in order (the loop of \<open>recognition.onresult\<close>).\<close>

definition finalTranscript :: "nat \<Rightarrow> speech_result list \<Rightarrow> string" where
  "finalTranscript resultIndex results =
     concat (map alt_transcript (filter isFinal (drop resultIndex results)))"

definition interimTranscript :: "nat \<Rightarrow> speech_result list \<Rightarrow> string" where
  "interimTranscript resultIndex results =
     concat (map alt_transcript (filter (\<lambda>r. \<not> isFinal r) (drop resultIndex results)))"

text \<open>\<open>xs.slice(-4)\<close>: the last four elements, all of them when there are fewer.\<close>

definition slice_last4 :: "'a list \<Rightarrow> 'a list" where
  "slice_last4 xs = drop (length xs - 4) xs"

section \<open>VoiceInterface (src/unnamed/part_003)\<close>

definition vi_recognition_onstart :: "VoiceInterface \<Rightarrow> VoiceInterface" where
  "vi_recognition_onstart s = s\<lparr>isListening := True, error := [], currentTranscript := []\<rparr>"

definition vi_recognition_onerror :: "string \<Rightarrow> VoiceInterface \<Rightarrow> VoiceInterface" where
  "vi_recognition_onerror code s =
     (let s1 = s\<lparr>isListening := False\<rparr> in
      if code = ''no-speech'' then s1\<lparr>error := ''No speech detected. Please try again.''\<rparr>
      else if code = ''audio-capture''
        then s1\<lparr>error := ''Microphone not accessible. Please check permissions.''\<rparr>
      else if code = ''not-allowed''
        then s1\<lparr>error := ''Microphone permission denied. Please allow microphone access.'',
                 permissionGranted := False\<rparr>
      else if code = ''network'' then s1\<lparr>error := ''Network error. Please check your connection.''\<rparr>
      else s1\<lparr>error := ''Speech recognition error: '' @ code\<rparr>)"

text \<open>
  \<open>speakText\<close>: nothing without a synthesizer, a selected voice or a non-blank text;
  otherwise pending speech is cancelled and the cleaned text is spoken.
\<close>

definition vi_speakText :: "VoiceInterface \<Rightarrow> string \<Rightarrow> VoiceInterface \<Rightarrow> VoiceInterface" where
  "vi_speakText c txt s =
     (if \<not> synthRef s \<or> selectedVoice c = None \<or> trim txt = [] then s
      else s\<lparr>effects := effects s @ [SynthCancel, SynthSpeak (cleanText txt)],
             isSpeaking := True\<rparr>)"

definition vi_utterance_onstart :: "VoiceInterface \<Rightarrow> VoiceInterface" where
  "vi_utterance_onstart s = s\<lparr>isSpeaking := True\<rparr>"

definition vi_utterance_onend :: "VoiceInterface \<Rightarrow> VoiceInterface" where
  "vi_utterance_onend s = s\<lparr>isSpeaking := False\<rparr>"

definition vi_utterance_onerror :: "VoiceInterface \<Rightarrow> VoiceInterface" where
  "vi_utterance_onerror s = s\<lparr>isSpeaking := False, error := ''Text-to-speech error occurred''\<rparr>"

text \<open>
  \<open>processUserInput\<close> up to its \<open>await fetch\<close>: a blank text returns at once; otherwise the
  user entry and a placeholder entry are appended together, \<open>isProcessing\<close> is set and the
  request is sent. \<open>conversation\<close> in the body is the closure's.
\<close>

definition user_entry :: "string \<Rightarrow> nat \<Rightarrow> ConversationEntry" where
  "user_entry txt now =
     \<lparr>type = user, text = Text txt, timestamp = now,
      id_entry = ''user-'' @ digits now, isProcessing_entry = None\<rparr>"

definition processing_id :: "nat \<Rightarrow> string" where
  "processing_id now = ''assistant-'' @ digits now"

definition processing_entry :: "nat \<Rightarrow> ConversationEntry" where
  "processing_entry now =
     \<lparr>type = assistant, text = Text ''Processing your request...'', timestamp = now,
      id_entry = processing_id now, isProcessing_entry = Some True\<rparr>"

definition to_turn :: "ConversationEntry \<Rightarrow> turn" where
  "to_turn e = \<lparr>role = (if type e = user then ''user'' else ''assistant''), content = text e\<rparr>"

definition vi_request :: "VoiceInterface \<Rightarrow> string \<Rightarrow> string \<Rightarrow> request_body" where
  "vi_request c sessionId txt =
     \<lparr>task = txt,
      context = \<lparr>session_id = sessionId, input_method = ''voice'',
                 conversation_context = Some (map to_turn (slice_last4 (conversation c))),
                 real_time = None\<rparr>,
      agents = [''researcher'', ''analyzer'']\<rparr>"

definition processUserInput :: "VoiceInterface \<Rightarrow> string \<Rightarrow> nat \<Rightarrow> string \<Rightarrow> VoiceInterface \<Rightarrow> VoiceInterface" where
  "processUserInput c sessionId now txt s =
     (if trim txt = [] then s
      else s\<lparr>conversation := conversation s @ [user_entry txt now, processing_entry now],
             isProcessing := True,
             effects := effects s @ [Fetch (vi_request c sessionId txt)]\<rparr>)"

text \<open>
  The rest of \<open>processUserInput\<close>, run when the fetch settles; \<open>pid\<close> is the
  \<open>processingEntry.id\<close> the continuation holds. \<open>vi_thrown\<close> is the value that reaches the
  \<open>catch\<close> block from the lines up to \<open>await response.json()\<close> and the reading of the
  body, if any; \<open>vi_catch\<close> is the \<open>catch\<close> block. In the \<open>try\<close> block \<open>speakText\<close> is
  called behind the test of synthesizer, voice and answer, so its own test comes to
  \<open>text.trim()\<close>, which throws when the answer is not a string.
\<close>

definition set_entry_text :: "string \<Rightarrow> js_value \<Rightarrow> ConversationEntry list \<Rightarrow> ConversationEntry list" where
  "set_entry_text pid txt entries =
     map (\<lambda>entry. if id_entry entry = pid
                   then entry\<lparr>text := txt, isProcessing_entry := Some False\<rparr> else entry) entries"

definition vi_thrown :: "type_errors \<Rightarrow> fetch_outcome \<Rightarrow> string option + api_result" where
  "vi_thrown messages outcome =
     (case outcome of
        Rejected thrown \<Rightarrow> Inl thrown
      | Resolved r \<Rightarrow>
          if \<not> ok r then Inl (Some (''HTTP '' @ digits (status r) @ '': '' @ statusText r))
          else (case json r of
                  JsonRejected thrown \<Rightarrow> Inl thrown
                | JsonNull \<Rightarrow> Inl (Some (reading_null messages))
                | JsonBody result \<Rightarrow> Inr result))"

definition vi_catch :: "VoiceInterface \<Rightarrow> string \<Rightarrow> string option \<Rightarrow> VoiceInterface \<Rightarrow> VoiceInterface" where
  "vi_catch c pid thrown s =
     (let errorMsg = error_message thrown;
          s1 = s\<lparr>conversation := set_entry_text pid (Text errorMsg) (conversation s),
                 error := errorMsg\<rparr>
      in if synthRef s1 \<and> selectedVoice c \<noteq> None then vi_speakText c errorMsg s1 else s1)"

definition processUserInput_settled :: "VoiceInterface \<Rightarrow> string \<Rightarrow> type_errors \<Rightarrow> fetch_outcome \<Rightarrow> VoiceInterface \<Rightarrow> VoiceInterface" where
  "processUserInput_settled c pid messages outcome s =
     (case vi_thrown messages outcome of
        Inr result \<Rightarrow>
          (let aiResponse = answer_text result ''I processed your request successfully.'';
               s1 = s\<lparr>conversation := set_entry_text pid aiResponse (conversation s)\<rparr>;
               s2 = (if synthRef s1 \<and> selectedVoice c \<noteq> None \<and> truthy aiResponse
                     then (case aiResponse of
                             Text t \<Rightarrow> vi_speakText c t s1
                           | Other b \<Rightarrow> vi_catch c pid (Some (calling_trim messages)) s1)
                     else s1)
           in s2\<lparr>isProcessing := False\<rparr>)
      | Inl thrown \<Rightarrow> (vi_catch c pid thrown s)\<lparr>isProcessing := False\<rparr>)"

definition vi_recognition_onresult :: "VoiceInterface \<Rightarrow> string \<Rightarrow> nat \<Rightarrow> nat \<Rightarrow> speech_result list \<Rightarrow> VoiceInterface \<Rightarrow> VoiceInterface" where
  "vi_recognition_onresult c sessionId now resultIndex results s =
     (let s1 = s\<lparr>currentTranscript := interimTranscript resultIndex results\<rparr> in
      if finalTranscript resultIndex results \<noteq> []
      then processUserInput c sessionId now (trim (finalTranscript resultIndex results))
             (s1\<lparr>currentTranscript := []\<rparr>)
      else s1)"

text \<open>
  \<open>startListening\<close> is asynchronous too: the guard and the permission request, then,
  when the permission request settles, either \<open>recognition.start()\<close> (whose exception is
  caught and reported) or the permission error.
\<close>

definition vi_startListening :: "VoiceInterface \<Rightarrow> VoiceInterface \<Rightarrow> VoiceInterface" where
  "vi_startListening c s =
     (if \<not> recognitionRef s \<or> isListening c \<or> isProcessing c then s
      else s\<lparr>effects := effects s @ [GetUserMedia]\<rparr>)"

definition vi_startListening_settled :: "bool \<Rightarrow> bool \<Rightarrow> VoiceInterface \<Rightarrow> VoiceInterface" where
  "vi_startListening_settled granted start_throws s =
     (if granted then
        (let s1 = s\<lparr>permissionGranted := True, error := [],
                     effects := effects s @ [RecognitionStart]\<rparr>
         in if start_throws
            then s1\<lparr>error := ''Failed to start speech recognition. Please try again.''\<rparr>
            else s1)
      else s\<lparr>error := ''Microphone permission required. Please allow access and try again.'',
             permissionGranted := False\<rparr>)"

definition clearConversation :: "VoiceInterface \<Rightarrow> VoiceInterface \<Rightarrow> VoiceInterface" where
  "clearConversation c s =
     stopSpeaking (stopListening c (s\<lparr>conversation := [], currentTranscript := [], error := []\<rparr>))"


section \<open>RealTimeVoiceChat (src/frontend/src/components/AgentStatusIndicator.tsx)\<close>

definition rt_recognition_onstart :: "RealTimeVoiceChat \<Rightarrow> RealTimeVoiceChat" where
  "rt_recognition_onstart s = s\<lparr>isListening := True, error := []\<rparr>"

definition rt_recognition_onerror :: "string \<Rightarrow> RealTimeVoiceChat \<Rightarrow> RealTimeVoiceChat" where
  "rt_recognition_onerror code s =
     s\<lparr>isListening := False, error := ''Speech recognition error: '' @ code\<rparr>"

text \<open>\<open>startListening\<close>: \<open>recognition.start()\<close> is its last statement, so an exception of
  the platform there changes nothing more.\<close>

definition rt_startListening :: "RealTimeVoiceChat \<Rightarrow> RealTimeVoiceChat \<Rightarrow> RealTimeVoiceChat" where
  "rt_startListening c s =
     (if recognitionRef s \<and> \<not> isListening c \<and> \<not> isProcessing c
      then s\<lparr>transcript := [], error := [], effects := effects s @ [RecognitionStart]\<rparr>
      else s)"

text \<open>\<open>speakText\<close> hands the text to the utterance as it is.\<close>

definition rt_speakText :: "string \<Rightarrow> RealTimeVoiceChat \<Rightarrow> RealTimeVoiceChat" where
  "rt_speakText txt s =
     (if \<not> synthRef s \<or> trim txt = [] then s
      else s\<lparr>effects := effects s @ [SynthCancel, SynthSpeak txt], isSpeaking := True\<rparr>)"

text \<open>
  The utterance's callbacks. \<open>onend\<close> clears \<open>isSpeaking\<close> and sets a timer of 500 ms;
  \<open>resume_timer\<close> is the timer's callback, a closure of the render \<open>speakText\<close> belongs to.
\<close>

definition rt_utterance_onstart :: "RealTimeVoiceChat \<Rightarrow> RealTimeVoiceChat" where
  "rt_utterance_onstart s = s\<lparr>isSpeaking := True\<rparr>"

definition rt_utterance_onend :: "RealTimeVoiceChat \<Rightarrow> RealTimeVoiceChat" where
  "rt_utterance_onend s = s\<lparr>isSpeaking := False, effects := effects s @ [SetTimeout 500]\<rparr>"


definition rt_utterance_onerror :: "RealTimeVoiceChat \<Rightarrow> RealTimeVoiceChat" where
  "rt_utterance_onerror s = s\<lparr>isSpeaking := False\<rparr>"

definition toggleVoiceChat :: "RealTimeVoiceChat \<Rightarrow> RealTimeVoiceChat \<Rightarrow> RealTimeVoiceChat" where
  "toggleVoiceChat c s =
     (if isListening c then stopListening c s
      else if isSpeaking c then stopSpeaking s
      else rt_startListening c s)"

text \<open>
  \<open>processVoiceInput\<close> up to its \<open>await fetch\<close>: a blank text, or \<open>isProcessing\<close> as the
  closure sees it, returns at once; otherwise \<open>isProcessing\<close> is set, \<open>stopListening\<close> is
  called, the user message is appended and the request is sent.
\<close>

definition rt_request :: "string \<Rightarrow> string \<Rightarrow> request_body" where
  "rt_request sessionId txt =
     \<lparr>task = txt,
      context = \<lparr>session_id = sessionId, input_method = ''voice'',
                 conversation_context = None, real_time = Some True\<rparr>,
      agents = [''researcher'', ''analyzer'']\<rparr>"

definition processVoiceInput :: "RealTimeVoiceChat \<Rightarrow> string \<Rightarrow> nat \<Rightarrow> string \<Rightarrow> RealTimeVoiceChat \<Rightarrow> RealTimeVoiceChat" where
  "processVoiceInput c sessionId now txt s =
     (if trim txt = [] \<or> isProcessing c then s
      else (let s1 = stopListening c (s\<lparr>isProcessing := True\<rparr>)
            in s1\<lparr>conversation := conversation s1 @
                    [\<lparr>type = user, text = Text txt, timestamp = now\<rparr>],
                  effects := effects s1 @ [Fetch (rt_request sessionId txt)]\<rparr>))"

text \<open>
  The rest of \<open>processVoiceInput\<close>, run when the fetch settles at time \<open>now\<close>. \<open>rt_catch\<close>
  is the \<open>catch\<close> block. In the \<open>try\<close> block \<open>speakText\<close> returns at once without a
  synthesizer and otherwise comes to \<open>text.trim()\<close>, which throws when the answer is not
  a string.
\<close>

definition rt_thrown :: "type_errors \<Rightarrow> fetch_outcome \<Rightarrow> string option + api_result" where
  "rt_thrown messages outcome =
     (case outcome of
        Rejected thrown \<Rightarrow> Inl thrown
      | Resolved r \<Rightarrow>
          if \<not> ok r then Inl (Some (''HTTP '' @ digits (status r)))
          else (case json r of
                  JsonRejected thrown \<Rightarrow> Inl thrown
                | JsonNull \<Rightarrow> Inl (Some (reading_null messages))
                | JsonBody result \<Rightarrow> Inr result))"

definition rt_catch :: "string option \<Rightarrow> RealTimeVoiceChat \<Rightarrow> RealTimeVoiceChat" where
  "rt_catch thrown s =
     (let errorMsg = error_message thrown in rt_speakText errorMsg (s\<lparr>error := errorMsg\<rparr>))"

definition processVoiceInput_settled :: "nat \<Rightarrow> type_errors \<Rightarrow> fetch_outcome \<Rightarrow> RealTimeVoiceChat \<Rightarrow> RealTimeVoiceChat" where
  "processVoiceInput_settled now messages outcome s =
     (case rt_thrown messages outcome of
        Inr result \<Rightarrow>
          (let aiText = answer_text result ''I processed your request successfully!'';
               s1 = s\<lparr>aiResponse := aiText,
                      conversation := conversation s @ [\<lparr>type = ai, text = aiText, timestamp = now\<rparr>]\<rparr>;
               s2 = (case aiText of
                       Text t \<Rightarrow> rt_speakText t s1
                     | Other b \<Rightarrow>
                         if synthRef s1 then rt_catch (Some (calling_trim messages)) s1 else s1)
           in s2\<lparr>isProcessing := False\<rparr>)
      | Inl thrown \<Rightarrow> (rt_catch thrown s)\<lparr>isProcessing := False\<rparr>)"

definition rt_recognition_onresult :: "RealTimeVoiceChat \<Rightarrow> string \<Rightarrow> nat \<Rightarrow> nat \<Rightarrow> speech_result list \<Rightarrow> RealTimeVoiceChat \<Rightarrow> RealTimeVoiceChat" where
  "rt_recognition_onresult c sessionId now resultIndex results s =
     (if finalTranscript resultIndex results \<noteq> []
      then processVoiceInput c sessionId now (finalTranscript resultIndex results)
             (s\<lparr>transcript := finalTranscript resultIndex results\<rparr>)
      else s)"

section \<open>Mounted components\<close>

text \<open>
  The state after mounting in a browser that has both speech objects: every \<open>useState\<close>
  variable at its initial value, both refs set. The state variables of the first render
  have these values, so as a closure \<open>vi_mounted\<close> (\<open>rt_mounted\<close>) is the first render.
\<close>

definition vi_mounted :: VoiceInterface where
  "vi_mounted =
     \<lparr>isListening = False, isProcessing = False, isSpeaking = False, conversation = [],
      error = [], recognitionRef = True, synthRef = True, effects = [],
      currentTranscript = [], selectedVoice = None, permissionGranted = False\<rparr>"

definition rt_mounted :: RealTimeVoiceChat where
  "rt_mounted =
     \<lparr>isListening = False, isProcessing = False, isSpeaking = False, conversation = [],
      error = [], recognitionRef = True, synthRef = True, effects = [],
      transcript = [], aiResponse = Text []\<rparr>"

section \<open>Sequences of recognition events\<close>

text \<open>
  A recognition event: the time, \<open>event.resultIndex\<close> and \<open>event.results\<close>. An interim
  event has no final result from \<open>resultIndex\<close> on. Events are delivered to the installed
  callback, the closure of the first render. \<open>fetches\<close> picks the requests out of a log
  of platform calls.
\<close>

definition interim_event :: "nat \<times> nat \<times> speech_result list \<Rightarrow> bool" where
  "interim_event ev = (case ev of (now, resultIndex, results) \<Rightarrow>
     list_all (\<lambda>r. \<not> isFinal r) (drop resultIndex results))"

definition rt_deliver :: "string \<Rightarrow> RealTimeVoiceChat \<Rightarrow> nat \<times> nat \<times> speech_result list \<Rightarrow> RealTimeVoiceChat" where
  "rt_deliver sessionId s ev = (case ev of (now, resultIndex, results) \<Rightarrow>
     rt_recognition_onresult rt_mounted sessionId now resultIndex results s)"

definition vi_deliver :: "string \<Rightarrow> VoiceInterface \<Rightarrow> nat \<times> nat \<times> speech_result list \<Rightarrow> VoiceInterface" where
  "vi_deliver sessionId s ev = (case ev of (now, resultIndex, results) \<Rightarrow>
     vi_recognition_onresult vi_mounted sessionId now resultIndex results s)"

fun fetches :: "effect list \<Rightarrow> request_body list" where
  "fetches [] = []"
| "fetches (Fetch body # es) = body # fetches es"
| "fetches (e # es) = fetches es"

section \<open>Concrete scenarios\<close>

text \<open>
  The scenario of the specification: the user says "What is the weather" and the backend
  answers \<open>{results: {summary: "It is sunny."}}\<close>; then the user says "And tomorrow".
  The engine words its type errors as Firefox does.
\<close>

definition browser_messages :: type_errors where
  "browser_messages =
     \<lparr>reading_null = ''result is null'', calling_trim = ''text.trim is not a function''\<rparr>"

definition sunny_response :: fetch_outcome where
  "sunny_response =
     Resolved \<lparr>ok = True, status = 200, statusText = ''OK'',
               json = JsonBody \<lparr>results_summary = Text ''It is sunny.'', summary = Other False\<rparr>\<rparr>"

definition null_response :: fetch_outcome where
  "null_response = Resolved \<lparr>ok = True, status = 200, statusText = ''OK'', json = JsonNull\<rparr>"

definition weather_results :: "speech_result list" where
  "weather_results = [\<lparr>alt_transcript = ''What is the weather'', isFinal = True\<rparr>]"

definition tomorrow_results :: "speech_result list" where
  "tomorrow_results = [\<lparr>alt_transcript = ''And tomorrow'', isFinal = True\<rparr>]"

text \<open>
  VoiceInterface: the voices have loaded and one is selected; the user clicks the
  microphone button and grants the permission, recognition starts, delivers the final
  transcript to the installed callback and ends; the answer arrives.
\<close>

definition vi_voice_loaded :: VoiceInterface where
  "vi_voice_loaded = vi_mounted\<lparr>selectedVoice := Some ''Google US English''\<rparr>"

definition vi_listening :: VoiceInterface where
  "vi_listening =
     vi_recognition_onstart
       (vi_startListening_settled True False (vi_startListening vi_voice_loaded vi_voice_loaded))"

definition vi_dispatching :: VoiceInterface where
  "vi_dispatching =
     vi_recognition_onresult vi_mounted ''s1'' 1000 0 weather_results vi_listening"

definition vi_answered :: VoiceInterface where
  "vi_answered =
     processUserInput_settled vi_mounted (processing_id 1000) browser_messages sunny_response
       (recognition_onend vi_dispatching)"

text \<open>
  RealTimeVoiceChat: the user clicks the main button, recognition starts and delivers the
  final transcript to the installed callback; the answer arrives and is spoken; while it
  is spoken the second final transcript is delivered.
\<close>

definition rt_listening :: RealTimeVoiceChat where
  "rt_listening = rt_recognition_onstart (toggleVoiceChat rt_mounted rt_mounted)"

definition rt_dispatching :: RealTimeVoiceChat where
  "rt_dispatching = rt_recognition_onresult rt_mounted ''s1'' 1000 0 weather_results rt_listening"

definition rt_speaking :: RealTimeVoiceChat where
  "rt_speaking = processVoiceInput_settled 2000 browser_messages sunny_response rt_dispatching"

definition rt_dispatching_again :: RealTimeVoiceChat where
  "rt_dispatching_again =
     rt_recognition_onresult rt_mounted ''s1'' 3000 0 tomorrow_results rt_speaking"


section \<open>Auxiliary facts\<close>

lemma trim_Cons_nonblank: "\<not> is_space c \<Longrightarrow> trim (c # cs) \<noteq> []"
  by (simp add: trim_def)

lemma trim_nonblank_nonempty: "trim x \<noteq> [] \<Longrightarrow> x \<noteq> []"
  by (auto simp: trim_def)

lemma digits_1000: "digits 1000 = ''1000''"
  by code_simp


lemma error_message_nonblank: "trim (error_message thrown) \<noteq> []"
  by (simp add: error_message_def trim_Cons_nonblank is_space_def)

lemma conversation_vi_speakText [simp]: "conversation (vi_speakText c txt s) = conversation s"
  by (simp add: vi_speakText_def)

lemma conversation_rt_speakText [simp]: "conversation (rt_speakText txt s) = conversation s"
  by (simp add: rt_speakText_def)

lemma conversation_stopListening [simp]: "conversation (stopListening c s) = conversation s"
  by (simp add: stopListening_def)

lemma isProcessing_vi_speakText [simp]: "isProcessing (vi_speakText c txt s) = isProcessing s"
  by (simp add: vi_speakText_def)

lemma isProcessing_rt_speakText [simp]: "isProcessing (rt_speakText txt s) = isProcessing s"
  by (simp add: rt_speakText_def)

lemma error_vi_speakText [simp]: "error (vi_speakText c txt s) = error s"
  by (simp add: vi_speakText_def)

lemma error_rt_speakText [simp]: "error (rt_speakText txt s) = error s"
  by (simp add: rt_speakText_def)

lemma effects_vi_speakText:
  "synthRef s \<Longrightarrow> selectedVoice c \<noteq> None \<Longrightarrow> trim txt \<noteq> [] \<Longrightarrow>
   effects (vi_speakText c txt s) = effects s @ [SynthCancel, SynthSpeak (cleanText txt)]"
  by (simp add: vi_speakText_def)

lemma effects_rt_speakText:
  "synthRef s \<Longrightarrow> trim txt \<noteq> [] \<Longrightarrow>
   effects (rt_speakText txt s) = effects s @ [SynthCancel, SynthSpeak txt]"
  by (simp add: rt_speakText_def)

lemma set_entry_text_append:
  "set_entry_text pid txt (xs @ ys) = set_entry_text pid txt xs @ set_entry_text pid txt ys"
  by (simp add: set_entry_text_def)

lemma set_entry_text_fresh:
  "pid \<notin> id_entry ` set xs \<Longrightarrow> set_entry_text pid txt xs = xs"
  by (induction xs) (auto simp: set_entry_text_def)

lemma set_entry_text_cycle:
  "set_entry_text (processing_id now) txt [user_entry T now, processing_entry now] =
     [user_entry T now, (processing_entry now)\<lparr>text := txt, isProcessing_entry := Some False\<rparr>]"
  by (simp add: set_entry_text_def user_entry_def processing_entry_def processing_id_def)

lemma set_entry_text_twice [simp]:
  "set_entry_text pid b (set_entry_text pid a xs) = set_entry_text pid b xs"
  by (induction xs) (auto simp: set_entry_text_def)

lemma vi_thrown_ok: "ok r \<Longrightarrow> json r = JsonBody result \<Longrightarrow> vi_thrown messages (Resolved r) = Inr result"
  by (simp add: vi_thrown_def)

lemma rt_thrown_ok: "ok r \<Longrightarrow> json r = JsonBody result \<Longrightarrow> rt_thrown messages (Resolved r) = Inr result"
  by (simp add: rt_thrown_def)

lemma answer_text_fallback:
  "\<not> truthy (results_summary result) \<Longrightarrow> \<not> truthy (summary result) \<Longrightarrow>
   answer_text result fallback = Text fallback"
  by (simp add: answer_text_def or_else_def)

lemma truthy_answer_text: "fallback \<noteq> [] \<Longrightarrow> truthy (answer_text result fallback)"
  by (simp add: answer_text_def or_else_def truthy_def)

subsection \<open>What settling a request does\<close>

lemma conversation_vi_catch:
  "conversation (vi_catch c pid thrown s) =
     set_entry_text pid (Text (error_message thrown)) (conversation s)"
  by (simp add: vi_catch_def Let_def)


lemma isProcessing_vi_catch [simp]: "isProcessing (vi_catch c pid thrown s) = isProcessing s"
  by (simp add: vi_catch_def Let_def)

lemma conversation_rt_catch [simp]: "conversation (rt_catch thrown s) = conversation s"
  by (simp add: rt_catch_def Let_def)


lemma isProcessing_rt_catch [simp]: "isProcessing (rt_catch thrown s) = isProcessing s"
  by (simp add: rt_catch_def Let_def)

lemma effects_rt_catch:
  "synthRef s \<Longrightarrow>
   effects (rt_catch thrown s) = effects s @ [SynthCancel, SynthSpeak (error_message thrown)]"
  by (simp add: rt_catch_def Let_def effects_rt_speakText error_message_nonblank)

lemma vi_settled_conversation:
  "vi_thrown messages outcome = Inr result \<Longrightarrow>
   answer_text result ''I processed your request successfully.'' = Text A \<Longrightarrow>
   conversation (processUserInput_settled c pid messages outcome s) =
     set_entry_text pid (Text A) (conversation s)"
  by (simp add: processUserInput_settled_def Let_def)

lemma vi_settled_conversation_failed:
  "vi_thrown messages outcome = Inl thrown \<Longrightarrow>
   conversation (processUserInput_settled c pid messages outcome s) =
     set_entry_text pid (Text (error_message thrown)) (conversation s)"
  by (simp add: processUserInput_settled_def conversation_vi_catch)


lemma rt_settled_conversation:
  "rt_thrown messages outcome = Inr result \<Longrightarrow>
   conversation (processVoiceInput_settled now messages outcome s) =
     conversation s @
       [\<lparr>type = ai, text = answer_text result ''I processed your request successfully!'',
         timestamp = now\<rparr>]"
  by (simp add: processVoiceInput_settled_def Let_def split: js_value.split)

lemma rt_settled_conversation_failed:
  "rt_thrown messages outcome = Inl thrown \<Longrightarrow>
   conversation (processVoiceInput_settled now messages outcome s) = conversation s"
  by (simp add: processVoiceInput_settled_def)


lemma rt_settled_effects_failed:
  "rt_thrown messages outcome = Inl thrown \<Longrightarrow> synthRef s \<Longrightarrow>
   effects (processVoiceInput_settled now messages outcome s) =
     effects s @ [SynthCancel, SynthSpeak (error_message thrown)]"
  by (simp add: processVoiceInput_settled_def effects_rt_catch)

lemma rt_settled_not_processing:
  "\<not> isProcessing (processVoiceInput_settled now messages outcome s)"
  by (simp add: processVoiceInput_settled_def Let_def split: sum.split js_value.split)

lemma vi_settled_not_processing:
  "\<not> isProcessing (processUserInput_settled c pid messages outcome s)"
  by (simp add: processUserInput_settled_def Let_def split: sum.split js_value.split)

lemma rt_settled_effects:
  "rt_thrown messages outcome = Inr result \<Longrightarrow> synthRef s \<Longrightarrow>
   answer_text result ''I processed your request successfully!'' = Text A \<Longrightarrow>
   trim A \<noteq> [] \<Longrightarrow>
   effects (processVoiceInput_settled now messages outcome s) =
     effects s @ [SynthCancel, SynthSpeak A]"
  by (simp add: processVoiceInput_settled_def Let_def effects_rt_speakText)

text \<open>A closure that sees no selected voice, as the first render does, never speaks.\<close>

lemma no_voice_no_speech:
  "selectedVoice c = None \<Longrightarrow>
   effects (processUserInput_settled c pid messages outcome s) = effects s"
  by (simp add: processUserInput_settled_def vi_catch_def Let_def split: sum.split)

subsection \<open>The scenarios, evaluated\<close>

lemma trim_weather: "trim ''What is the weather'' = ''What is the weather''"
  by code_simp

lemma trim_tomorrow: "trim ''And tomorrow'' = ''And tomorrow''"
  by code_simp

lemma trim_sunny: "trim ''It is sunny.'' \<noteq> []"
  by (simp add: trim_Cons_nonblank is_space_def)

lemma vi_listening_eq:
  "vi_listening =
     \<lparr>isListening = True, isProcessing = False, isSpeaking = False, conversation = [],
      error = [], recognitionRef = True, synthRef = True,
      effects = [GetUserMedia, RecognitionStart],
      currentTranscript = [], selectedVoice = Some ''Google US English'',
      permissionGranted = True\<rparr>"
  by (simp add: vi_listening_def vi_voice_loaded_def vi_mounted_def vi_recognition_onstart_def
      vi_startListening_settled_def vi_startListening_def)

lemma vi_dispatching_eq:
  "vi_dispatching =
     \<lparr>isListening = True, isProcessing = True, isSpeaking = False,
      conversation = [user_entry ''What is the weather'' 1000, processing_entry 1000],
      error = [], recognitionRef = True, synthRef = True,
      effects = [GetUserMedia, RecognitionStart,
                 Fetch (vi_request vi_mounted ''s1'' ''What is the weather'')],
      currentTranscript = [], selectedVoice = Some ''Google US English'',
      permissionGranted = True\<rparr>"
  by (simp add: vi_dispatching_def vi_listening_eq vi_recognition_onresult_def weather_results_def
      finalTranscript_def interimTranscript_def processUserInput_def trim_weather)

lemma vi_answered_eq:
  "vi_answered =
     \<lparr>isListening = False, isProcessing = False, isSpeaking = False,
      conversation = [user_entry ''What is the weather'' 1000,
                      (processing_entry 1000)\<lparr>text := Text ''It is sunny.'',
                                               isProcessing_entry := Some False\<rparr>],
      error = [], recognitionRef = True, synthRef = True,
      effects = [GetUserMedia, RecognitionStart,
                 Fetch (vi_request vi_mounted ''s1'' ''What is the weather'')],
      currentTranscript = [], selectedVoice = Some ''Google US English'',
      permissionGranted = True\<rparr>"
  by (simp add: vi_answered_def vi_dispatching_eq recognition_onend_def sunny_response_def
      processUserInput_settled_def vi_thrown_def answer_text_def or_else_def truthy_def Let_def
      set_entry_text_cycle vi_mounted_def)

lemma rt_listening_eq:
  "rt_listening =
     \<lparr>isListening = True, isProcessing = False, isSpeaking = False, conversation = [],
      error = [], recognitionRef = True, synthRef = True, effects = [RecognitionStart],
      transcript = [], aiResponse = Text []\<rparr>"
  by (simp add: rt_listening_def rt_mounted_def toggleVoiceChat_def rt_startListening_def
      rt_recognition_onstart_def)

lemma rt_dispatching_eq:
  "rt_dispatching =
     \<lparr>isListening = True, isProcessing = True, isSpeaking = False,
      conversation = [\<lparr>type = user, text = Text ''What is the weather'', timestamp = 1000\<rparr>],
      error = [], recognitionRef = True, synthRef = True,
      effects = [RecognitionStart, Fetch (rt_request ''s1'' ''What is the weather'')],
      transcript = ''What is the weather'', aiResponse = Text []\<rparr>"
  by (simp add: rt_dispatching_def rt_listening_eq rt_recognition_onresult_def weather_results_def
      finalTranscript_def processVoiceInput_def trim_weather rt_mounted_def stopListening_def)

lemma rt_speaking_eq:
  "rt_speaking =
     \<lparr>isListening = True, isProcessing = False, isSpeaking = True,
      conversation = [\<lparr>type = user, text = Text ''What is the weather'', timestamp = 1000\<rparr>,
                      \<lparr>type = ai, text = Text ''It is sunny.'', timestamp = 2000\<rparr>],
      error = [], recognitionRef = True, synthRef = True,
      effects = [RecognitionStart, Fetch (rt_request ''s1'' ''What is the weather''),
                 SynthCancel, SynthSpeak ''It is sunny.''],
      transcript = ''What is the weather'', aiResponse = Text ''It is sunny.''\<rparr>"
  by (simp add: rt_speaking_def rt_dispatching_eq sunny_response_def processVoiceInput_settled_def
      rt_thrown_def answer_text_def or_else_def truthy_def Let_def rt_speakText_def trim_sunny)

lemma rt_dispatching_again_eq:
  "rt_dispatching_again =
     \<lparr>isListening = True, isProcessing = True, isSpeaking = True,
      conversation = [\<lparr>type = user, text = Text ''What is the weather'', timestamp = 1000\<rparr>,
                      \<lparr>type = ai, text = Text ''It is sunny.'', timestamp = 2000\<rparr>,
                      \<lparr>type = user, text = Text ''And tomorrow'', timestamp = 3000\<rparr>],
      error = [], recognitionRef = True, synthRef = True,
      effects = [RecognitionStart, Fetch (rt_request ''s1'' ''What is the weather''),
                 SynthCancel, SynthSpeak ''It is sunny.'',
                 Fetch (rt_request ''s1'' ''And tomorrow'')],
      transcript = ''And tomorrow'', aiResponse = Text ''It is sunny.''\<rparr>"
  by (simp add: rt_dispatching_again_def rt_speaking_eq rt_recognition_onresult_def
      tomorrow_results_def finalTranscript_def processVoiceInput_def trim_tomorrow rt_mounted_def
      stopListening_def)

section \<open>The round trip of one utterance\<close>

text \<open>
  C5. Take a final transcript text \<open>T\<close> that is not blank, as it is handed to
  \<open>processUserInput\<close> or \<open>processVoiceInput\<close>, a backend call that succeeds
  (\<open>response.ok\<close>, a body that parses and is not \<open>null\<close>) and a playback that starts and
  ends. The conversation then has gained exactly two entries, in this order: the user
  entry with text \<open>T\<close>, then the assistant entry with the answer. In VoiceInterface the
  second entry is the placeholder appended with the first, its text replaced by the
  answer, a string \<open>A\<close> (entries already in the log stay as they are unless one carries
  the placeholder's id); in RealTimeVoiceChat the second entry is appended when the
  answer arrives, and the cycle begins only if \<open>processVoiceInput\<close> does not see
  \<open>isProcessing\<close> set. This holds for every closure, the first render among them.
\<close>

theorem round_trip_user_then_assistant:
  assumes "trim T \<noteq> []" and "ok r" and "json r = JsonBody result"
    and "answer_text result ''I processed your request successfully.'' = Text A"
  shows "conversation (vi_utterance_onend (vi_utterance_onstart
           (processUserInput_settled c' (processing_id now) messages (Resolved r)
             (processUserInput c sessionId now T s)))) =
         set_entry_text (processing_id now) (Text A) (conversation s) @
           [\<lparr>type = user, text = Text T, timestamp = now,
             id_entry = ''user-'' @ digits now, isProcessing_entry = None\<rparr>,
            \<lparr>type = assistant, text = Text A,
             timestamp = now, id_entry = processing_id now, isProcessing_entry = Some False\<rparr>]
       \<and> (processing_id now \<notin> id_entry ` set (conversation s) \<longrightarrow>
            set_entry_text (processing_id now) (Text A) (conversation s) = conversation s)
       \<and> (\<not> isProcessing k \<longrightarrow>
            conversation (rt_utterance_onend (rt_utterance_onstart
              (processVoiceInput_settled now' messages (Resolved r)
                (processVoiceInput k sessionId now T t)))) =
            conversation t @
              [\<lparr>type = user, text = Text T, timestamp = now\<rparr>,
               \<lparr>type = ai, text = answer_text result ''I processed your request successfully!'',
                timestamp = now'\<rparr>])"
proof (intro conjI impI)
  have vi: "vi_thrown messages (Resolved r) = Inr result"
    using assms by (simp add: vi_thrown_ok)
  show "conversation (vi_utterance_onend (vi_utterance_onstart
           (processUserInput_settled c' (processing_id now) messages (Resolved r)
             (processUserInput c sessionId now T s)))) =
         set_entry_text (processing_id now) (Text A) (conversation s) @
           [\<lparr>type = user, text = Text T, timestamp = now,
             id_entry = ''user-'' @ digits now, isProcessing_entry = None\<rparr>,
            \<lparr>type = assistant, text = Text A,
             timestamp = now, id_entry = processing_id now, isProcessing_entry = Some False\<rparr>]"
    using assms(1)
    by (simp add: vi_utterance_onend_def vi_utterance_onstart_def
        vi_settled_conversation [OF vi assms(4)]
        processUserInput_def set_entry_text_append set_entry_text_cycle)
      (simp add: user_entry_def processing_entry_def)
next
  assume "processing_id now \<notin> id_entry ` set (conversation s)"
  then show "set_entry_text (processing_id now) (Text A) (conversation s) = conversation s"
    by (simp add: set_entry_text_fresh)
next
  assume "\<not> isProcessing k"
  moreover have "rt_thrown messages (Resolved r) = Inr result"
    using assms by (simp add: rt_thrown_ok)
  ultimately show "conversation (rt_utterance_onend (rt_utterance_onstart
           (processVoiceInput_settled now' messages (Resolved r)
             (processVoiceInput k sessionId now T t)))) =
         conversation t @
           [\<lparr>type = user, text = Text T, timestamp = now\<rparr>,
            \<lparr>type = ai, text = answer_text result ''I processed your request successfully!'',
             timestamp = now'\<rparr>]"
    using assms(1)
    by (simp add: rt_utterance_onend_def rt_utterance_onstart_def rt_settled_conversation
        processVoiceInput_def Let_def)
qed

theorem round_trip_user_then_assistant_witness:
  "trim ''What is the weather'' \<noteq> []
   \<and> conversation (vi_utterance_onend (vi_utterance_onstart
        (processUserInput_settled vi_mounted (processing_id 1000) browser_messages
          (Resolved \<lparr>ok = True, status = 200, statusText = ''OK'',
             json = JsonBody \<lparr>results_summary = Text ''It is sunny.'', summary = Other False\<rparr>\<rparr>)
          (processUserInput vi_mounted ''s1'' 1000 ''What is the weather'' vi_mounted)))) =
       [\<lparr>type = user, text = Text ''What is the weather'', timestamp = 1000,
         id_entry = ''user-1000'', isProcessing_entry = None\<rparr>,
        \<lparr>type = assistant, text = Text ''It is sunny.'', timestamp = 1000,
         id_entry = ''assistant-1000'', isProcessing_entry = Some False\<rparr>]
   \<and> conversation (rt_utterance_onend (rt_utterance_onstart
        (processVoiceInput_settled 2000 browser_messages
          (Resolved \<lparr>ok = True, status = 200, statusText = ''OK'',
             json = JsonBody \<lparr>results_summary = Text ''It is sunny.'', summary = Other False\<rparr>\<rparr>)
          (processVoiceInput rt_mounted ''s1'' 1000 ''What is the weather'' rt_mounted)))) =
       [\<lparr>type = user, text = Text ''What is the weather'', timestamp = 1000\<rparr>,
        \<lparr>type = ai, text = Text ''It is sunny.'', timestamp = 2000\<rparr>]"
proof -
  have nonblank: "trim ''What is the weather'' \<noteq> []"
    by (simp add: trim_Cons_nonblank is_space_def)
  have answer: "answer_text \<lparr>results_summary = Text ''It is sunny.'', summary = Other False\<rparr>
      ''I processed your request successfully.'' = Text ''It is sunny.''"
    by (simp add: answer_text_def or_else_def truthy_def)
  show ?thesis
    using nonblank
      round_trip_user_then_assistant [OF nonblank _ _ answer,
        where r = "\<lparr>ok = True, status = 200, statusText = ''OK'',
             json = JsonBody \<lparr>results_summary = Text ''It is sunny.'', summary = Other False\<rparr>\<rparr>"
          and c' = vi_mounted and now = 1000 and messages = browser_messages
          and c = vi_mounted and sessionId = "''s1''" and s = vi_mounted and k = rt_mounted
          and now' = 2000 and t = rt_mounted]
    by (simp add: answer_text_def or_else_def truthy_def processing_id_def digits_1000
        vi_mounted_def rt_mounted_def set_entry_text_def)
qed

section \<open>The fallback answer\<close>

text \<open>
  C10 has the fixed fallback text recorded and spoken whenever the backend answers with
  HTTP success and a body that holds neither \<open>results.summary\<close> nor \<open>summary\<close>. The body
  \<open>null\<close> is such a body, and the code treats it as a failed request: reading
  \<open>result.results\<close> throws, and what is recorded and spoken is the error message.
  RealTimeVoiceChat appends nothing and speaks the message; VoiceInterface writes the
  message into the assistant entry.
\<close>

theorem null_body_gives_error_not_fallback:
  "conversation (processVoiceInput_settled 2000 browser_messages null_response rt_dispatching) =
     [\<lparr>type = user, text = Text ''What is the weather'', timestamp = 1000\<rparr>]
   \<and> effects (processVoiceInput_settled 2000 browser_messages null_response rt_dispatching) =
     effects rt_dispatching @
       [SynthCancel, SynthSpeak ''Sorry, I encountered an error: result is null'']
   \<and> conversation (processUserInput_settled vi_mounted (processing_id 1000) browser_messages
        null_response (recognition_onend vi_dispatching)) =
     [user_entry ''What is the weather'' 1000,
      \<lparr>type = assistant, text = Text ''Sorry, I encountered an error: result is null'',
       timestamp = 1000, id_entry = processing_id 1000, isProcessing_entry = Some False\<rparr>]"
proof -
  have rt: "rt_thrown browser_messages null_response = Inl (Some ''result is null'')"
    by (simp add: rt_thrown_def null_response_def browser_messages_def)
  have vi: "vi_thrown browser_messages null_response = Inl (Some ''result is null'')"
    by (simp add: vi_thrown_def null_response_def browser_messages_def)
  have msg: "error_message (Some ''result is null'') =
      ''Sorry, I encountered an error: result is null''"
    by (simp add: error_message_def)
  show ?thesis
    by (simp add: rt_settled_conversation_failed [OF rt] rt_settled_effects_failed [OF rt]
        vi_settled_conversation_failed [OF vi] msg rt_dispatching_eq vi_dispatching_eq
        recognition_onend_def set_entry_text_cycle)
      (simp add: processing_entry_def)
qed

text \<open>
  C10, amended. When the backend answers with HTTP success and a body other than \<open>null\<close>
  in which neither \<open>results.summary\<close> nor \<open>summary\<close> is truthy, the answer is the fixed
  fallback text, never the empty string. VoiceInterface writes
  "I processed your request successfully." into the assistant entry of the cycle;
  RealTimeVoiceChat appends an entry with "I processed your request successfully!" and,
  given a synthesizer, speaks it.
\<close>

theorem fallback_answer_recorded:
  assumes "ok r" and "json r = JsonBody result"
    and "\<not> truthy (results_summary result)" and "\<not> truthy (summary result)"
    and "trim T \<noteq> []"
  shows "conversation (processUserInput_settled c (processing_id now) messages (Resolved r)
            (processUserInput c sessionId now T s)) =
         set_entry_text (processing_id now) (Text ''I processed your request successfully.'')
             (conversation s) @
           [user_entry T now,
            \<lparr>type = assistant, text = Text ''I processed your request successfully.'',
             timestamp = now, id_entry = processing_id now, isProcessing_entry = Some False\<rparr>]
       \<and> conversation (processVoiceInput_settled now' messages (Resolved r) t) =
           conversation t @
             [\<lparr>type = ai, text = Text ''I processed your request successfully!'',
               timestamp = now'\<rparr>]
       \<and> (synthRef t \<longrightarrow>
            effects (processVoiceInput_settled now' messages (Resolved r) t) =
            effects t @ [SynthCancel, SynthSpeak ''I processed your request successfully!''])"
proof (intro conjI impI)
  have vi: "vi_thrown messages (Resolved r) = Inr result"
    using assms(1,2) by (simp add: vi_thrown_ok)
  have rt: "rt_thrown messages (Resolved r) = Inr result"
    using assms(1,2) by (simp add: rt_thrown_ok)
  have fb: "answer_text result fallback = Text fallback" for fallback
    using assms(3,4) by (rule answer_text_fallback)
  have nb: "trim ''I processed your request successfully!'' \<noteq> []"
    by (simp add: trim_Cons_nonblank is_space_def)
  show "conversation (processUserInput_settled c (processing_id now) messages (Resolved r)
            (processUserInput c sessionId now T s)) =
         set_entry_text (processing_id now) (Text ''I processed your request successfully.'')
             (conversation s) @
           [user_entry T now,
            \<lparr>type = assistant, text = Text ''I processed your request successfully.'',
             timestamp = now, id_entry = processing_id now, isProcessing_entry = Some False\<rparr>]"
    using assms(5)
    by (simp add: vi_settled_conversation [OF vi fb] processUserInput_def set_entry_text_append
        set_entry_text_cycle)
      (simp add: processing_entry_def)
  show "conversation (processVoiceInput_settled now' messages (Resolved r) t) =
           conversation t @
             [\<lparr>type = ai, text = Text ''I processed your request successfully!'',
               timestamp = now'\<rparr>]"
    by (simp add: rt_settled_conversation [OF rt] fb)
  show "effects (processVoiceInput_settled now' messages (Resolved r) t) =
            effects t @ [SynthCancel, SynthSpeak ''I processed your request successfully!'']"
    if "synthRef t"
    using that nb by (simp add: rt_settled_effects [OF rt _ fb])
qed

theorem fallback_answer_recorded_witness:
  "trim ''What is the weather'' \<noteq> []
   \<and> \<not> truthy (Other False) \<and> \<not> truthy (Text [])
   \<and> conversation (processUserInput_settled vi_mounted (processing_id 1000) browser_messages
          (Resolved \<lparr>ok = True, status = 200, statusText = ''OK'',
             json = JsonBody \<lparr>results_summary = Other False, summary = Text []\<rparr>\<rparr>)
          (processUserInput vi_mounted ''s1'' 1000 ''What is the weather'' vi_listening)) =
       [user_entry ''What is the weather'' 1000,
        \<lparr>type = assistant, text = Text ''I processed your request successfully.'',
         timestamp = 1000, id_entry = processing_id 1000, isProcessing_entry = Some False\<rparr>]
   \<and> conversation (processVoiceInput_settled 2000 browser_messages
          (Resolved \<lparr>ok = True, status = 200, statusText = ''OK'',
             json = JsonBody \<lparr>results_summary = Other False, summary = Text []\<rparr>\<rparr>)
          rt_dispatching) =
       [\<lparr>type = user, text = Text ''What is the weather'', timestamp = 1000\<rparr>,
        \<lparr>type = ai, text = Text ''I processed your request successfully!'', timestamp = 2000\<rparr>]
   \<and> effects (processVoiceInput_settled 2000 browser_messages
          (Resolved \<lparr>ok = True, status = 200, statusText = ''OK'',
             json = JsonBody \<lparr>results_summary = Other False, summary = Text []\<rparr>\<rparr>)
          rt_dispatching) =
       effects rt_dispatching @
         [SynthCancel, SynthSpeak ''I processed your request successfully!'']"
proof -
  have nonblank: "trim ''What is the weather'' \<noteq> []"
    by (simp add: trim_weather)
  show ?thesis
    using nonblank
      fallback_answer_recorded [where T = "''What is the weather''" and now = 1000
        and now' = 2000 and messages = browser_messages
        and r = "\<lparr>ok = True, status = 200, statusText = ''OK'',
             json = JsonBody \<lparr>results_summary = Other False, summary = Text []\<rparr>\<rparr>"
        and result = "\<lparr>results_summary = Other False, summary = Text []\<rparr>"
        and c = vi_mounted and s = vi_listening and t = rt_dispatching and sessionId = "''s1''"]
    by (simp add: truthy_def vi_listening_eq rt_dispatching_eq set_entry_text_def)
qed

section \<open>A request that fails\<close>




subsection \<open>Recognition events and the log of platform calls\<close>

lemma fetches_append: "fetches (xs @ ys) = fetches xs @ fetches ys"
  by (induction xs rule: fetches.induct) simp_all

lemma fetches_stopListening: "fetches (effects (stopListening c s)) = fetches (effects s)"
  by (simp add: stopListening_def fetches_append)

lemma interim_event_no_final:
  "interim_event (now, resultIndex, results) \<Longrightarrow> finalTranscript resultIndex results = []"
  by (simp add: interim_event_def finalTranscript_def list_all_iff filter_empty_conv [THEN iffD2])

lemma rt_deliver_interim: "interim_event ev \<Longrightarrow> rt_deliver sessionId s ev = s"
  by (cases ev) (simp add: rt_deliver_def rt_recognition_onresult_def interim_event_no_final)

lemma rt_deliver_interims:
  "list_all interim_event evs \<Longrightarrow> foldl (rt_deliver sessionId) s evs = s"
  by (induction evs arbitrary: s) (simp_all add: rt_deliver_interim)

lemma vi_deliver_interim:
  "interim_event ev \<Longrightarrow>
   vi_deliver sessionId s ev =
     s\<lparr>currentTranscript := interimTranscript (fst (snd ev)) (snd (snd ev))\<rparr>"
  by (cases ev) (simp add: vi_deliver_def vi_recognition_onresult_def interim_event_no_final)

lemma vi_deliver_interims:
  "list_all interim_event evs \<Longrightarrow>
   \<exists>tr. foldl (vi_deliver sessionId) s evs = s\<lparr>currentTranscript := tr\<rparr>"
proof (induction evs arbitrary: s)
  case Nil
  have "s = s\<lparr>currentTranscript := currentTranscript s\<rparr>" by simp
  then show ?case by (metis foldl_Nil)
next
  case (Cons ev evs)
  then obtain tr where
    "foldl (vi_deliver sessionId) (vi_deliver sessionId s ev) evs =
       (vi_deliver sessionId s ev)\<lparr>currentTranscript := tr\<rparr>"
    by force
  with Cons.prems show ?case
    by (auto simp: vi_deliver_interim)
qed

lemma trim_trim: "trim (trim s) = trim s"
proof -
  define y where "y = dropWhile is_space s"
  define z where "z = dropWhile is_space (rev y)"
  have "dropWhile is_space (rev z) = rev z"
  proof (cases "z = []")
    case True
    then show ?thesis by simp
  next
    case False
    then have "rev y \<noteq> []" by (auto simp: z_def)
    then have "y \<noteq> []" by simp
    then have "\<not> is_space (hd y)"
      unfolding y_def by (metis hd_dropWhile)
    moreover have "last z = last (rev y)"
      using False unfolding z_def by (metis takeWhile_dropWhile_id last_appendR)
    moreover have "last (rev y) = hd y"
      using \<open>y \<noteq> []\<close> by (simp add: last_rev)
    ultimately have "\<not> is_space (hd (rev z))"
      using False by (simp add: hd_rev)
    then show ?thesis
      using False by (cases "rev z") simp_all
  qed
  moreover have "dropWhile is_space z = z"
    by (simp add: z_def)
  ultimately show ?thesis
    by (simp add: trim_def y_def [symmetric] z_def [symmetric])
qed

lemma vi_onresult_final:
  "trim (finalTranscript resultIndex results) \<noteq> [] \<Longrightarrow>
   vi_recognition_onresult c sessionId now resultIndex results s =
     s\<lparr>currentTranscript := [],
       conversation := conversation s @
         [user_entry (trim (finalTranscript resultIndex results)) now, processing_entry now],
       isProcessing := True,
       effects := effects s @
         [Fetch (vi_request c sessionId (trim (finalTranscript resultIndex results)))]\<rparr>"
  by (simp add: vi_recognition_onresult_def processUserInput_def trim_trim
      trim_nonblank_nonempty)

lemma task_vi_request [simp]: "task (vi_request c sessionId txt) = txt"
  by (simp add: vi_request_def)

section \<open>From the final transcript to the request\<close>

text \<open>
  C3 has the capture adapter stopped before every dispatch. \<open>processUserInput\<close> of
  VoiceInterface never stops recognition: in the scenario the request has gone out
  while \<open>isListening\<close> is set and no \<open>recognition.stop()\<close> has been called.
\<close>

theorem voice_interface_dispatches_while_listening:
  "isListening vi_listening \<and> isListening vi_dispatching \<and> isProcessing vi_dispatching
   \<and> effects vi_dispatching =
       [GetUserMedia, RecognitionStart,
        Fetch \<lparr>task = ''What is the weather'',
           context = \<lparr>session_id = ''s1'', input_method = ''voice'',
             conversation_context = Some [], real_time = None\<rparr>,
           agents = [''researcher'', ''analyzer'']\<rparr>]
   \<and> RecognitionStop \<notin> set (effects vi_dispatching)"
  by (simp add: vi_listening_eq vi_dispatching_eq vi_request_def vi_mounted_def slice_last4_def)

text \<open>
  C3, amended. After any sequence of interim recognition events, one final event whose
  trimmed transcript is not empty sets \<open>isProcessing\<close> and sends exactly one request:
  RealTimeVoiceChat, when no request is in flight, with the transcript as the task;
  VoiceInterface with the trimmed transcript as the task and without a call of
  \<open>recognition.stop()\<close>, the request being the only platform call it makes.
\<close>

theorem final_transcript_dispatches_once:
  assumes "list_all interim_event evs" and "list_all interim_event evs'"
    and "trim (finalTranscript resultIndex results) \<noteq> []"
    and "\<not> isProcessing s"
  shows "fetches (effects (rt_deliver sessionId (foldl (rt_deliver sessionId) s evs)
                    (now, resultIndex, results))) =
           fetches (effects s) @ [rt_request sessionId (finalTranscript resultIndex results)]
       \<and> isProcessing (rt_deliver sessionId (foldl (rt_deliver sessionId) s evs)
                    (now, resultIndex, results))
       \<and> (\<exists>body. task body = trim (finalTranscript resultIndex results) \<and>
            effects (vi_deliver sessionId (foldl (vi_deliver sessionId) t evs')
                      (now, resultIndex, results)) = effects t @ [Fetch body])
       \<and> isProcessing (vi_deliver sessionId (foldl (vi_deliver sessionId) t evs')
                    (now, resultIndex, results))"
proof (intro conjI)
  from assms(3) have final: "finalTranscript resultIndex results \<noteq> []"
    by (auto simp: trim_def)
  have rt: "rt_deliver sessionId (foldl (rt_deliver sessionId) s evs) (now, resultIndex, results) =
      processVoiceInput rt_mounted sessionId now (finalTranscript resultIndex results)
        (s\<lparr>transcript := finalTranscript resultIndex results\<rparr>)"
    using final
    by (simp add: rt_deliver_interims [OF assms(1)] rt_deliver_def rt_recognition_onresult_def)
  have closure: "\<not> isProcessing rt_mounted" "\<not> isListening rt_mounted"
    by (simp_all add: rt_mounted_def)
  show "fetches (effects (rt_deliver sessionId (foldl (rt_deliver sessionId) s evs)
                    (now, resultIndex, results))) =
           fetches (effects s) @ [rt_request sessionId (finalTranscript resultIndex results)]"
    using assms(3) closure
    by (simp add: rt processVoiceInput_def Let_def fetches_append fetches_stopListening)
  show "isProcessing (rt_deliver sessionId (foldl (rt_deliver sessionId) s evs)
                    (now, resultIndex, results))"
    using assms(3) closure
    by (simp add: rt processVoiceInput_def Let_def stopListening_def)
  obtain tr where tr: "foldl (vi_deliver sessionId) t evs' = t\<lparr>currentTranscript := tr\<rparr>"
    using vi_deliver_interims [OF assms(2)] by blast
  have vi: "vi_deliver sessionId (foldl (vi_deliver sessionId) t evs') (now, resultIndex, results) =
      vi_recognition_onresult vi_mounted sessionId now resultIndex results
        (t\<lparr>currentTranscript := tr\<rparr>)"
    by (simp add: vi_deliver_def tr)
  have "effects (vi_deliver sessionId (foldl (vi_deliver sessionId) t evs')
                      (now, resultIndex, results)) =
      effects t @
        [Fetch (vi_request vi_mounted sessionId (trim (finalTranscript resultIndex results)))]"
    using assms(3) by (simp add: vi vi_onresult_final)
  moreover have "task (vi_request vi_mounted sessionId
      (trim (finalTranscript resultIndex results))) = trim (finalTranscript resultIndex results)"
    by simp
  ultimately show "\<exists>body. task body = trim (finalTranscript resultIndex results) \<and>
            effects (vi_deliver sessionId (foldl (vi_deliver sessionId) t evs')
                      (now, resultIndex, results)) = effects t @ [Fetch body]"
    by blast
  show "isProcessing (vi_deliver sessionId (foldl (vi_deliver sessionId) t evs')
                    (now, resultIndex, results))"
    using assms(3) by (simp add: vi vi_onresult_final)
qed

theorem final_transcript_dispatches_once_witness:
  "list_all interim_event [(900, 0, [\<lparr>alt_transcript = ''What is'', isFinal = False\<rparr>])]
   \<and> trim (finalTranscript 0 weather_results) \<noteq> []
   \<and> \<not> isProcessing rt_listening
   \<and> fetches (effects (rt_deliver ''s1''
         (foldl (rt_deliver ''s1'') rt_listening
            [(900, 0, [\<lparr>alt_transcript = ''What is'', isFinal = False\<rparr>])])
         (1000, 0, weather_results))) =
       [rt_request ''s1'' ''What is the weather'']
   \<and> effects (vi_deliver ''s1''
         (foldl (vi_deliver ''s1'') vi_listening
            [(900, 0, [\<lparr>alt_transcript = ''What is'', isFinal = False\<rparr>])])
         (1000, 0, weather_results)) =
       [GetUserMedia, RecognitionStart,
        Fetch (vi_request vi_mounted ''s1'' ''What is the weather'')]
   \<and> isProcessing (vi_deliver ''s1''
         (foldl (vi_deliver ''s1'') vi_listening
            [(900, 0, [\<lparr>alt_transcript = ''What is'', isFinal = False\<rparr>])])
         (1000, 0, weather_results))"
proof -
  have i1: "list_all interim_event
     [(900, 0, [\<lparr>alt_transcript = ''What is'', isFinal = False\<rparr>])]"
    by (simp add: interim_event_def)
  have final: "finalTranscript 0 weather_results = ''What is the weather''"
    by (simp add: finalTranscript_def weather_results_def)
  have nonblank: "trim (finalTranscript 0 weather_results) \<noteq> []"
    by (simp add: final trim_weather)
  have idle: "\<not> isProcessing rt_listening"
    by (simp add: rt_listening_eq)
  have r1: "rt_deliver ''s1'' rt_listening
      (900, 0, [\<lparr>alt_transcript = ''What is'', isFinal = False\<rparr>]) = rt_listening"
    by (rule rt_deliver_interim) (simp add: interim_event_def)
  have r2: "rt_deliver ''s1'' rt_listening (1000, 0, weather_results) = rt_dispatching"
    by (simp add: rt_deliver_def rt_dispatching_def)
  have v1: "vi_deliver ''s1'' vi_listening
      (900, 0, [\<lparr>alt_transcript = ''What is'', isFinal = False\<rparr>]) =
      vi_listening\<lparr>currentTranscript := ''What is''\<rparr>"
    by (simp add: vi_deliver_def vi_recognition_onresult_def finalTranscript_def
        interimTranscript_def)
  have v2: "vi_deliver ''s1'' (vi_listening\<lparr>currentTranscript := ''What is''\<rparr>)
      (1000, 0, weather_results) = vi_dispatching"
    by (simp add: vi_deliver_def vi_dispatching_def vi_recognition_onresult_def
        finalTranscript_def interimTranscript_def weather_results_def processUserInput_def
        trim_weather)
  show ?thesis
    using i1 nonblank idle
      final_transcript_dispatches_once [OF i1 i1 nonblank idle, where sessionId = "''s1''"
        and now = 1000 and t = vi_listening]
    by (simp add: final trim_weather r1 r2 v1 v2 vi_dispatching_eq rt_dispatching_eq)
qed

section \<open>Requests in flight\<close>




section \<open>The request body\<close>

text \<open>
  C9 puts a \<open>conversation_context\<close> with the last four turns into every request body.
  RealTimeVoiceChat sends none: with the two turns of the scenario in its log, the body
  of its next request carries \<open>real_time: true\<close> and no \<open>conversation_context\<close>.
\<close>

theorem real_time_chat_request_has_no_conversation_context:
  "length (conversation rt_speaking) = 2
   \<and> effects rt_dispatching_again =
       effects rt_speaking @
         [Fetch \<lparr>task = ''And tomorrow'',
                 context = \<lparr>session_id = ''s1'', input_method = ''voice'',
                            conversation_context = None, real_time = Some True\<rparr>,
                 agents = [''researcher'', ''analyzer'']\<rparr>]"
  by (simp add: rt_speaking_eq rt_dispatching_again_eq rt_request_def)

text \<open>
  C9, amended. Every request body holds the text as \<open>task\<close>, a \<open>context\<close> with the session
  id and \<open>input_method: "voice"\<close>, and the agents \<open>["researcher", "analyzer"]\<close>. In
  VoiceInterface the context also holds a \<open>conversation_context\<close> array of at most four
  turns; in RealTimeVoiceChat it holds \<open>real_time: true\<close> instead and no
  \<open>conversation_context\<close>.
\<close>

theorem request_body_contents:
  assumes "trim T \<noteq> []"
  shows "(\<exists>ctx. length ctx \<le> 4 \<and>
            effects (processUserInput c sessionId now T s) =
              effects s @
                [Fetch \<lparr>task = T,
                   context = \<lparr>session_id = sessionId, input_method = ''voice'',
                     conversation_context = Some ctx, real_time = None\<rparr>,
                   agents = [''researcher'', ''analyzer'']\<rparr>])
       \<and> (\<not> isProcessing k \<longrightarrow>
            fetches (effects (processVoiceInput k sessionId now T t)) =
              fetches (effects t) @
                [\<lparr>task = T,
                  context = \<lparr>session_id = sessionId, input_method = ''voice'',
                    conversation_context = None, real_time = Some True\<rparr>,
                  agents = [''researcher'', ''analyzer'']\<rparr>])"
proof (intro conjI impI)
  have "length (map to_turn (slice_last4 (conversation c))) \<le> 4"
    by (simp add: slice_last4_def)
  moreover have "effects (processUserInput c sessionId now T s) =
      effects s @
        [Fetch \<lparr>task = T,
           context = \<lparr>session_id = sessionId, input_method = ''voice'',
             conversation_context = Some (map to_turn (slice_last4 (conversation c))),
             real_time = None\<rparr>,
           agents = [''researcher'', ''analyzer'']\<rparr>]"
    using assms by (simp add: processUserInput_def vi_request_def)
  ultimately show "\<exists>ctx. length ctx \<le> 4 \<and>
            effects (processUserInput c sessionId now T s) =
              effects s @
                [Fetch \<lparr>task = T,
                   context = \<lparr>session_id = sessionId, input_method = ''voice'',
                     conversation_context = Some ctx, real_time = None\<rparr>,
                   agents = [''researcher'', ''analyzer'']\<rparr>]"
    by blast
  show "fetches (effects (processVoiceInput k sessionId now T t)) =
              fetches (effects t) @
                [\<lparr>task = T,
                  context = \<lparr>session_id = sessionId, input_method = ''voice'',
                    conversation_context = None, real_time = Some True\<rparr>,
                  agents = [''researcher'', ''analyzer'']\<rparr>]"
    if "\<not> isProcessing k"
    using that assms
    by (simp add: processVoiceInput_def Let_def fetches_append fetches_stopListening
        rt_request_def)
qed

theorem request_body_contents_witness:
  "trim ''What is the weather'' \<noteq> []
   \<and> effects (processUserInput vi_mounted ''s1'' 1000 ''What is the weather'' vi_listening) =
       [GetUserMedia, RecognitionStart,
        Fetch \<lparr>task = ''What is the weather'',
           context = \<lparr>session_id = ''s1'', input_method = ''voice'',
             conversation_context = Some [], real_time = None\<rparr>,
           agents = [''researcher'', ''analyzer'']\<rparr>]
   \<and> \<not> isProcessing rt_mounted
   \<and> fetches (effects (processVoiceInput rt_mounted ''s1'' 1000 ''What is the weather''
         rt_listening)) =
       [\<lparr>task = ''What is the weather'',
         context = \<lparr>session_id = ''s1'', input_method = ''voice'',
           conversation_context = None, real_time = Some True\<rparr>,
         agents = [''researcher'', ''analyzer'']\<rparr>]"
proof -
  have nonblank: "trim ''What is the weather'' \<noteq> []"
    by (simp add: trim_weather)
  show ?thesis
    using nonblank
      request_body_contents [OF nonblank, where c = vi_mounted and sessionId = "''s1''"
        and now = 1000 and s = vi_listening and k = rt_mounted and t = rt_listening]
    by (simp add: vi_listening_eq rt_listening_eq rt_mounted_def vi_mounted_def
        processUserInput_def vi_request_def slice_last4_def trim_weather)
qed

section \<open>A stop while the request is in flight\<close>

lemma isProcessing_stopListening [simp]: "isProcessing (stopListening c s) = isProcessing s"
  by (simp add: stopListening_def)

lemma isProcessing_stopSpeaking [simp]: "isProcessing (stopSpeaking s) = isProcessing s"
  by (simp add: stopSpeaking_def)

lemma conversation_stopSpeaking [simp]: "conversation (stopSpeaking s) = conversation s"
  by (simp add: stopSpeaking_def)

lemma isProcessing_clearConversation:
  "isProcessing (clearConversation c s) = isProcessing s"
  by (simp add: clearConversation_def)

lemma conversation_clearConversation: "conversation (clearConversation c s) = []"
  by (simp add: clearConversation_def)

text \<open>
  C7 has a stop during a request mark the request as abandoned, and the response that
  arrives later change nothing. Neither component keeps such a mark. In VoiceInterface
  the user clicks Clear Chat while the request of the scenario is in flight: recognition
  and synthesis are stopped, \<open>isProcessing\<close> stays set, and the response that arrives
  afterwards clears it. In RealTimeVoiceChat the user clicks Stop Speaking while the
  second request of the scenario is in flight: \<open>isProcessing\<close> stays set, and the response
  that arrives afterwards is appended to the conversation and spoken.
\<close>

theorem response_after_stop_is_processed:
  "isProcessing vi_dispatching
   \<and> isProcessing (clearConversation vi_dispatching vi_dispatching)
   \<and> effects (clearConversation vi_dispatching vi_dispatching) =
       effects vi_dispatching @ [RecognitionStop, SynthCancel]
   \<and> \<not> isProcessing (processUserInput_settled vi_mounted (processing_id 1000)
         browser_messages sunny_response (clearConversation vi_dispatching vi_dispatching))
   \<and> isProcessing rt_dispatching_again \<and> isSpeaking rt_dispatching_again
   \<and> isProcessing (stopSpeaking rt_dispatching_again)
   \<and> \<not> isSpeaking (stopSpeaking rt_dispatching_again)
   \<and> conversation (processVoiceInput_settled 4000 browser_messages sunny_response
         (stopSpeaking rt_dispatching_again)) =
       conversation rt_dispatching_again @
         [\<lparr>type = ai, text = Text ''It is sunny.'', timestamp = 4000\<rparr>]
   \<and> effects (processVoiceInput_settled 4000 browser_messages sunny_response
         (stopSpeaking rt_dispatching_again)) =
       effects rt_dispatching_again @ [SynthCancel, SynthCancel, SynthSpeak ''It is sunny.'']
   \<and> isSpeaking (processVoiceInput_settled 4000 browser_messages sunny_response
         (stopSpeaking rt_dispatching_again))"
proof -
  have rt: "rt_thrown browser_messages sunny_response =
      Inr \<lparr>results_summary = Text ''It is sunny.'', summary = Other False\<rparr>"
    by (simp add: rt_thrown_def sunny_response_def)
  have answer: "answer_text \<lparr>results_summary = Text ''It is sunny.'', summary = Other False\<rparr>
      ''I processed your request successfully!'' = Text ''It is sunny.''"
    by (simp add: answer_text_def or_else_def truthy_def)
  have stopped: "synthRef (stopSpeaking rt_dispatching_again)"
    "effects (stopSpeaking rt_dispatching_again) = effects rt_dispatching_again @ [SynthCancel]"
    "\<not> isSpeaking (stopSpeaking rt_dispatching_again)"
    by (simp_all add: stopSpeaking_def rt_dispatching_again_eq)
  have speaking: "isSpeaking (processVoiceInput_settled 4000 browser_messages sunny_response
         (stopSpeaking rt_dispatching_again))"
    using stopped(1)
    by (simp add: processVoiceInput_settled_def rt answer Let_def rt_speakText_def trim_sunny)
  have cleared: "effects (clearConversation vi_dispatching vi_dispatching) =
       effects vi_dispatching @ [RecognitionStop, SynthCancel]"
    by (simp add: clearConversation_def stopListening_def stopSpeaking_def vi_dispatching_eq)
  show ?thesis
    using speaking
    by (simp add: isProcessing_clearConversation vi_settled_not_processing cleared stopped
        rt_settled_conversation [OF rt] rt_settled_effects [OF rt stopped(1) answer trim_sunny]
        answer)
      (simp add: vi_dispatching_eq rt_dispatching_again_eq)
qed

text \<open>
  C7, amended. No stop marks a request as abandoned: \<open>stopListening\<close>, \<open>stopSpeaking\<close>
  and Clear Chat leave \<open>isProcessing\<close> as it is, and the response that arrives afterwards
  is handled like any other. Both components clear \<open>isProcessing\<close>. After a
  \<open>stopSpeaking\<close> RealTimeVoiceChat appends the answer to the conversation and, given a
  synthesizer and an answer that is a non-blank string, speaks it. After Clear Chat
  VoiceInterface finds no entry to write an answer string into, and the log stays empty.
\<close>

theorem response_is_never_discarded:
  assumes "rt_thrown messages outcome = Inr result"
    and "vi_thrown messages outcome' = Inr result'"
    and "answer_text result' ''I processed your request successfully.'' = Text A'"
  shows "isProcessing (stopListening k u) = isProcessing u
       \<and> isProcessing (stopSpeaking u) = isProcessing u
       \<and> isProcessing (clearConversation c' t) = isProcessing t
       \<and> \<not> isProcessing (processVoiceInput_settled now messages outcome (stopSpeaking u))
       \<and> conversation (processVoiceInput_settled now messages outcome (stopSpeaking u)) =
           conversation u @
             [\<lparr>type = ai, text = answer_text result ''I processed your request successfully!'',
               timestamp = now\<rparr>]
       \<and> (synthRef u \<and> answer_text result ''I processed your request successfully!'' = Text A
            \<and> trim A \<noteq> [] \<longrightarrow>
            effects (processVoiceInput_settled now messages outcome (stopSpeaking u)) =
              effects u @ [SynthCancel, SynthCancel, SynthSpeak A])
       \<and> \<not> isProcessing (processUserInput_settled c pid messages outcome'
              (clearConversation c' t))
       \<and> conversation (processUserInput_settled c pid messages outcome'
              (clearConversation c' t)) = []"
proof (intro conjI impI)
  show "isProcessing (stopListening k u) = isProcessing u"
    by simp
  show "isProcessing (stopSpeaking u) = isProcessing u"
    by simp
  show "isProcessing (clearConversation c' t) = isProcessing t"
    by (rule isProcessing_clearConversation)
  show "\<not> isProcessing (processVoiceInput_settled now messages outcome (stopSpeaking u))"
    by (rule rt_settled_not_processing)
  show "conversation (processVoiceInput_settled now messages outcome (stopSpeaking u)) =
           conversation u @
             [\<lparr>type = ai, text = answer_text result ''I processed your request successfully!'',
               timestamp = now\<rparr>]"
    by (simp add: rt_settled_conversation [OF assms(1)])
  show "effects (processVoiceInput_settled now messages outcome (stopSpeaking u)) =
              effects u @ [SynthCancel, SynthCancel, SynthSpeak A]"
    if h: "synthRef u \<and> answer_text result ''I processed your request successfully!'' = Text A
            \<and> trim A \<noteq> []"
  proof -
    have "synthRef (stopSpeaking u)"
      using h by (simp add: stopSpeaking_def)
    moreover have "effects (stopSpeaking u) = effects u @ [SynthCancel]"
      using h by (simp add: stopSpeaking_def)
    ultimately show ?thesis
      using h by (simp add: rt_settled_effects [OF assms(1)])
  qed
  show "\<not> isProcessing (processUserInput_settled c pid messages outcome'
              (clearConversation c' t))"
    by (rule vi_settled_not_processing)
  show "conversation (processUserInput_settled c pid messages outcome'
              (clearConversation c' t)) = []"
    by (simp add: vi_settled_conversation [OF assms(2,3)] conversation_clearConversation
        set_entry_text_def)
qed

theorem response_is_never_discarded_witness:
  "rt_thrown browser_messages sunny_response =
     Inr \<lparr>results_summary = Text ''It is sunny.'', summary = Other False\<rparr>
   \<and> vi_thrown browser_messages sunny_response =
     Inr \<lparr>results_summary = Text ''It is sunny.'', summary = Other False\<rparr>
   \<and> answer_text \<lparr>results_summary = Text ''It is sunny.'', summary = Other False\<rparr>
       ''I processed your request successfully.'' = Text ''It is sunny.''
   \<and> synthRef rt_dispatching_again
   \<and> answer_text \<lparr>results_summary = Text ''It is sunny.'', summary = Other False\<rparr>
       ''I processed your request successfully!'' = Text ''It is sunny.''
   \<and> trim ''It is sunny.'' \<noteq> []
   \<and> isProcessing (stopSpeaking rt_dispatching_again)
   \<and> conversation (processVoiceInput_settled 4000 browser_messages sunny_response
         (stopSpeaking rt_dispatching_again)) =
       [\<lparr>type = user, text = Text ''What is the weather'', timestamp = 1000\<rparr>,
        \<lparr>type = ai, text = Text ''It is sunny.'', timestamp = 2000\<rparr>,
        \<lparr>type = user, text = Text ''And tomorrow'', timestamp = 3000\<rparr>,
        \<lparr>type = ai, text = Text ''It is sunny.'', timestamp = 4000\<rparr>]
   \<and> effects (processVoiceInput_settled 4000 browser_messages sunny_response
         (stopSpeaking rt_dispatching_again)) =
       effects rt_dispatching_again @ [SynthCancel, SynthCancel, SynthSpeak ''It is sunny.'']
   \<and> isProcessing (clearConversation vi_dispatching vi_dispatching)
   \<and> \<not> isProcessing (processUserInput_settled vi_mounted (processing_id 1000)
         browser_messages sunny_response (clearConversation vi_dispatching vi_dispatching))
   \<and> conversation (processUserInput_settled vi_mounted (processing_id 1000)
         browser_messages sunny_response (clearConversation vi_dispatching vi_dispatching)) = []"
proof -
  have h1: "rt_thrown browser_messages sunny_response =
      Inr \<lparr>results_summary = Text ''It is sunny.'', summary = Other False\<rparr>"
    by (simp add: rt_thrown_def sunny_response_def)
  have h2: "vi_thrown browser_messages sunny_response =
      Inr \<lparr>results_summary = Text ''It is sunny.'', summary = Other False\<rparr>"
    by (simp add: vi_thrown_def sunny_response_def)
  have h3: "answer_text \<lparr>results_summary = Text ''It is sunny.'', summary = Other False\<rparr>
       fallback = Text ''It is sunny.''" for fallback
    by (simp add: answer_text_def or_else_def truthy_def)
  have h4: "synthRef rt_dispatching_again" "isProcessing rt_dispatching_again"
    "isProcessing vi_dispatching"
    by (simp_all add: rt_dispatching_again_eq vi_dispatching_eq)
  show ?thesis
    using h1 h2 h4 trim_sunny
      response_is_never_discarded [OF h1 h2 h3, where u = rt_dispatching_again
        and A = "''It is sunny.''" and now = 4000 and c' = vi_dispatching
        and t = vi_dispatching and c = vi_mounted and pid = "processing_id 1000"]
    by (simp add: h3) (simp add: rt_dispatching_again_eq)
qed

section \<open>Listening again after playback\<close>




section \<open>Capture and playback\<close>

text \<open>
  C1: capture and playback are never active together. \<open>processVoiceInput\<close> of
  RealTimeVoiceChat calls \<open>stopListening()\<close> before it sends the request, but it runs as
  the closure of the first render, in which \<open>isListening\<close> is false, so
  \<open>recognition.stop()\<close> is never called. In the scenario (the user clicks the main
  button, recognition starts and delivers "What is the weather", the backend answers)
  the answer is being spoken while \<open>isListening\<close> is still set, and the log of platform
  calls holds no \<open>recognition.stop()\<close>.
\<close>

theorem capture_and_playback_overlap:
  "isListening rt_speaking \<and> isSpeaking rt_speaking
   \<and> effects rt_speaking =
       [RecognitionStart, Fetch (rt_request ''s1'' ''What is the weather''),
        SynthCancel, SynthSpeak ''It is sunny.'']
   \<and> RecognitionStop \<notin> set (effects rt_speaking)"
  by (simp add: rt_speaking_eq)

section \<open>What the synthesizer is given\<close>














subsection \<open>What \<open>cleanText\<close> does to markup\<close>











end
